theory Spec2Isabelle
  imports Main "HOL-Library.Word" "HOL-Library.Signed_Division"
begin

section \<open>USB HID device access (hid\_enabled.go)\<close>

text \<open>
  The Go file wraps the native hidapi library through cgo. Every native primitive is an
  external collaborator: the model takes the native layer as a record of response
  functions and records each native call, with the arguments it received, in a
  chronological event log. A Go function that returns \<open>(int, error)\<close> returns a pair of
  an \<open>int\<close> and an \<open>error option\<close> (\<open>None\<close> is Go's \<open>nil\<close> error) together with the
  extended log.
\<close>

subsection \<open>Data\<close>

type_synonym byte = "8 word"

text \<open>The contents of a native \<open>wchar_t*\<close> string, as its code units.\<close>

type_synonym wstring = "nat list"

text \<open>A non-nil \<open>*C.hid_device\<close>; the nil pointer is \<open>None\<close> of \<open>hid_device option\<close>.\<close>

datatype hid_device = HidDevice nat

text \<open>
  One node of the native \<open>struct hid_device_info\<close> list. The \<open>next\<close> pointer is the
  tail of a HOL list, and the null list is \<open>[]\<close>. Pointer fields are options.
\<close>

record hid_device_info =
  path :: "string option"
  vendor_id :: "16 word"
  product_id :: "16 word"
  serial_number :: "wstring option"
  release_number :: "16 word"
  manufacturer_string :: "wstring option"
  product_string :: "wstring option"
  usage_page :: "16 word"
  usage :: "16 word"
  interface_number :: "32 word"

text \<open>
  Modelled from the spec: the declaration of the struct \<open>DeviceInfo\<close> is not in
  hid\_enabled.go; its fields are those that \<open>Enumerate\<close> assigns, with the types of
  section 3 of the specification (16-bit unsigned identifiers, a signed interface
  number, text fields that stay empty when the native pointer is null).
\<close>

record DeviceInfo =
  Path :: string
  VendorID :: "16 word"
  ProductID :: "16 word"
  Release :: "16 word"
  UsagePage :: "16 word"
  Usage :: "16 word"
  Interface :: int
  Serial :: string
  Product :: string
  Manufacturer :: string

text \<open>
  \<open>type Device struct { DeviceInfo; device *C.hid_device }\<close>. A \<open>*Device\<close> receiver
  is a \<open>Device option\<close>, \<open>None\<close> being the nil receiver.
\<close>

record Device =
  info :: DeviceInfo
  device :: "hid_device option"

text \<open>
  Modelled from the spec: the variable \<open>ErrDeviceClosed\<close> is declared outside
  hid\_enabled.go; it is the \<open>DeviceClosed\<close> error kind of section 7 of the
  specification, distinct from every error built from a message.
  \<open>ErrorsNew s\<close> is the value of \<open>errors.New(s)\<close>, which \<open>fmt.Errorf\<close> also returns
  for a format without \<open>%w\<close>.
\<close>

datatype error = ErrDeviceClosed | ErrorsNew string

text \<open>
  What happens outside the Go code, in order: the native calls with the arguments they
  receive, and the two operations on \<open>enumerateLock\<close>.
\<close>

datatype event =
    EnumerateLock
  | EnumerateUnlock
  | Call_hid_enumerate "16 word" "16 word"
  | Call_hid_free_enumeration "hid_device_info list"
  | Call_hid_close hid_device
  | Call_hid_write hid_device "byte list" nat
  | Call_hid_send_feature_report hid_device "byte list" nat
  | Call_hid_get_feature_report hid_device "byte list" nat
  | Call_hid_read_timeout hid_device "byte list" nat "32 word"
  | Call_hid_read hid_device "byte list" nat
  | Call_hid_error "hid_device option"
  | Call_GoHidGetErrno

type_synonym world = "event list"

text \<open>
  The collaborators of the file. Each native primitive answers from the events so far
  and its arguments; a C \<open>int\<close> result is a \<open>32 word\<close>. The read primitives also return
  the new contents of the buffer they were given. \<open>GOOS\<close> is \<open>runtime.GOOS\<close>,
  \<open>wcharTToString\<close> is the decoder of this package defined in another file (it returns
  the text and an error), and \<open>Errno_Error\<close> is the \<open>%v\<close> rendering of
  \<open>syscall.Errno(cErrno)\<close>.
\<close>

record extern =
  GOOS :: string
  hid_enumerate :: "world \<Rightarrow> 16 word \<Rightarrow> 16 word \<Rightarrow> hid_device_info list"
  hid_write :: "world \<Rightarrow> hid_device \<Rightarrow> byte list \<Rightarrow> nat \<Rightarrow> 32 word"
  hid_send_feature_report :: "world \<Rightarrow> hid_device \<Rightarrow> byte list \<Rightarrow> nat \<Rightarrow> 32 word"
  hid_get_feature_report :: "world \<Rightarrow> hid_device \<Rightarrow> byte list \<Rightarrow> nat \<Rightarrow> 32 word \<times> byte list"
  hid_read_timeout :: "world \<Rightarrow> hid_device \<Rightarrow> byte list \<Rightarrow> nat \<Rightarrow> 32 word \<Rightarrow> 32 word \<times> byte list"
  hid_read :: "world \<Rightarrow> hid_device \<Rightarrow> byte list \<Rightarrow> nat \<Rightarrow> 32 word \<times> byte list"
  hid_error :: "world \<Rightarrow> hid_device option \<Rightarrow> wstring option"
  GoHidGetErrno :: "world \<Rightarrow> 32 word"
  wcharTToString :: "wstring \<Rightarrow> string \<times> error option"
  Errno_Error :: "32 word \<Rightarrow> string"

text \<open>A call either returns or panics (a nil pointer dereference).\<close>

datatype 'a outcome = Panic | Return 'a

subsection \<open>Enumerate\<close>

text \<open>\<open>C.GoString\<close> of a null pointer is the empty string.\<close>

definition GoString :: "string option \<Rightarrow> string" where
  "GoString p = (case p of None \<Rightarrow> [] | Some s \<Rightarrow> s)"

text \<open>The body of the loop of \<open>Enumerate\<close>: the record built from one native node.\<close>

definition convert_info :: "extern \<Rightarrow> hid_device_info \<Rightarrow> DeviceInfo" where
  "convert_info X head =
     (let info0 = \<lparr> Path = GoString (path head),
                     VendorID = vendor_id head,
                     ProductID = product_id head,
                     Release = release_number head,
                     UsagePage = usage_page head,
                     Usage = usage head,
                     Interface = sint (interface_number head),
                     Serial = [],
                     Product = [],
                     Manufacturer = [] \<rparr>;
          info1 = (case serial_number head of
                     None \<Rightarrow> info0
                   | Some s \<Rightarrow> info0\<lparr>Serial := fst (wcharTToString X s)\<rparr>);
          info2 = (case product_string head of
                     None \<Rightarrow> info1
                   | Some s \<Rightarrow> info1\<lparr>Product := fst (wcharTToString X s)\<rparr>);
          info3 = (case manufacturer_string head of
                     None \<Rightarrow> info2
                   | Some s \<Rightarrow> info2\<lparr>Manufacturer := fst (wcharTToString X s)\<rparr>)
      in info3)"

text \<open>\<open>for ; head != nil; head = head.next { ...; infos = append(infos, info) }\<close>\<close>

fun enumerate_loop :: "extern \<Rightarrow> hid_device_info list \<Rightarrow> DeviceInfo list \<Rightarrow> DeviceInfo list" where
  "enumerate_loop X [] infos = infos"
| "enumerate_loop X (head # next) infos = enumerate_loop X next (infos @ [convert_info X head])"

text \<open>
  \<open>Enumerate\<close> has a single result, the slice of records; Go's nil slice is \<open>[]\<close>. The
  deferred calls run in reverse order on return: the native list is freed only when it
  was not null, and the lock is released last.
\<close>

definition Enumerate :: "extern \<Rightarrow> 16 word \<Rightarrow> 16 word \<Rightarrow> world \<Rightarrow> DeviceInfo list \<times> world" where
  "Enumerate X vendorID productID w =
     (let w1 = w @ [EnumerateLock];
          head = hid_enumerate X w1 vendorID productID;
          w2 = w1 @ [Call_hid_enumerate vendorID productID]
      in if head = [] then ([], w2 @ [EnumerateUnlock])
         else (enumerate_loop X head [],
               w2 @ [Call_hid_free_enumeration head, EnumerateUnlock]))"

subsection \<open>Close\<close>

text \<open>The result is the returned error, the device after the call and the log.\<close>

definition Close :: "extern \<Rightarrow> Device option \<Rightarrow> world \<Rightarrow> (error option \<times> Device \<times> world) outcome" where
  "Close X dev w =
     (case dev of
        None \<Rightarrow> Panic
      | Some d \<Rightarrow>
          (case device d of
             Some h \<Rightarrow> Return (None, d\<lparr>device := None\<rparr>, w @ [Call_hid_close h])
           | None \<Rightarrow> Return (None, d, w)))"

subsection \<open>The error translator\<close>

definition getError :: "extern \<Rightarrow> Device option \<Rightarrow> world \<Rightarrow> error \<times> world" where
  "getError X dev w =
     (case dev of
        None \<Rightarrow> (ErrDeviceClosed, w)
      | Some d \<Rightarrow>
          (let message = hid_error X w (device d);
               w1 = w @ [Call_hid_error (device d)]
           in case message of
                None \<Rightarrow>
                  (let cErrno = GoHidGetErrno X w1;
                       w2 = w1 @ [Call_GoHidGetErrno]
                   in (ErrorsNew (''hidapi: unknown failure. Errno: '' @ Errno_Error X cErrno), w2))
              | Some m \<Rightarrow>
                  (let failure = fst (wcharTToString X m)
                   in (ErrorsNew (''hidapi: '' @ failure), w1))))"

subsection \<open>DoWrite\<close>

text \<open>
  The \<open>if\<close> statement of \<open>DoWrite\<close> that builds \<open>report\<close>, the payload handed to the
  native layer: \<open>append([]byte{0x00}, b...)\<close> on Windows, \<open>b\<close> elsewhere.
\<close>

definition frame :: "extern \<Rightarrow> byte list \<Rightarrow> byte list" where
  "frame X b = (if GOOS X = ''windows'' then [0x00] @ b else b)"

definition DoWrite :: "extern \<Rightarrow> Device option \<Rightarrow> byte list \<Rightarrow> bool \<Rightarrow> world \<Rightarrow> ((int \<times> error option) \<times> world) outcome" where
  "DoWrite X dev b featureReport w =
     (if length b = 0 then Return ((0, None), w)
      else case dev of
        None \<Rightarrow> Panic
      | Some d \<Rightarrow>
          (case device d of
             None \<Rightarrow> Return ((0, Some ErrDeviceClosed), w)
           | Some h \<Rightarrow>
               (let report = frame X b;
                    r = (if featureReport
                         then hid_send_feature_report X w h report (length report)
                         else hid_write X w h report (length report));
                    w1 = w @ [if featureReport
                              then Call_hid_send_feature_report h report (length report)
                              else Call_hid_write h report (length report)];
                    written = sint r
                in if written = - 1
                   then (case getError X dev w1 of (e, w2) \<Rightarrow> Return ((0, Some e), w2))
                   else Return ((written, None), w1))))"

definition Write :: "extern \<Rightarrow> Device option \<Rightarrow> byte list \<Rightarrow> world \<Rightarrow> ((int \<times> error option) \<times> world) outcome" where
  "Write X dev b w = DoWrite X dev b False w"

subsection \<open>DoRead\<close>

text \<open>
  \<open>time.Duration\<close> is an \<open>int64\<close> of nanoseconds. \<open>C.int(timeout/time.Millisecond)\<close>
  divides as Go does (towards zero) and then keeps the low 32 bits of the quotient.
\<close>

type_synonym Duration = "64 word"

definition Millisecond :: int where
  "Millisecond = 1000000"

definition timeout_millis :: "Duration \<Rightarrow> 32 word" where
  "timeout_millis timeout =
     (let q = (word_of_int (sint timeout sdiv Millisecond) :: 64 word)
      in ucast q)"

text \<open>
  The result is the count, the error, the buffer after the call and the log. The source's
  empty \<open>if read == 0 { }\<close> after the timed read has no effect and no counterpart here.
\<close>

definition DoRead :: "extern \<Rightarrow> Device option \<Rightarrow> byte list \<Rightarrow> bool \<Rightarrow> Duration \<Rightarrow> world \<Rightarrow> ((int \<times> error option) \<times> byte list \<times> world) outcome" where
  "DoRead X dev b featureReport timeout w =
     (if length b = 0 then Return ((0, None), b, w)
      else case dev of
        None \<Rightarrow> Panic
      | Some d \<Rightarrow>
          (case device d of
             None \<Rightarrow> Return ((0, Some ErrDeviceClosed), b, w)
           | Some h \<Rightarrow>
               (let (r, b1, w1) =
                      (if featureReport
                       then (case hid_get_feature_report X w h b (length b) of
                               (r, b1) \<Rightarrow> (r, b1, w @ [Call_hid_get_feature_report h b (length b)]))
                       else if 0 <s timeout
                       then (case hid_read_timeout X w h b (length b) (timeout_millis timeout) of
                               (r, b1) \<Rightarrow> (r, b1, w @ [Call_hid_read_timeout h b (length b) (timeout_millis timeout)]))
                       else (case hid_read X w h b (length b) of
                               (r, b1) \<Rightarrow> (r, b1, w @ [Call_hid_read h b (length b)])));
                    read = sint r
                in if read = - 1
                   then (case getError X dev w1 of (e, w2) \<Rightarrow> Return ((0, Some e), b1, w2))
                   else Return ((read, None), b1, w1))))"

definition Read :: "extern \<Rightarrow> Device option \<Rightarrow> byte list \<Rightarrow> world \<Rightarrow> ((int \<times> error option) \<times> byte list \<times> world) outcome" where
  "Read X dev b w = DoRead X dev b False 0 w"

subsection \<open>A mock native layer and two devices\<close>

text \<open>
  A native layer for concrete runs: every I/O primitive returns \<open>r\<close> and leaves the
  buffer as it was, the last-error message is \<open>msg\<close>, the enumeration finds the
  devices \<open>found\<close> and the OS error code is 13.
\<close>

definition mock_extern :: "string \<Rightarrow> 32 word \<Rightarrow> wstring option \<Rightarrow> hid_device_info list \<Rightarrow> extern" where
  "mock_extern os r msg found =
     \<lparr> GOOS = os,
       hid_enumerate = (\<lambda>w v p. found),
       hid_write = (\<lambda>w h p n. r),
       hid_send_feature_report = (\<lambda>w h p n. r),
       hid_get_feature_report = (\<lambda>w h b n. (r, b)),
       hid_read_timeout = (\<lambda>w h b n ms. (r, b)),
       hid_read = (\<lambda>w h b n. (r, b)),
       hid_error = (\<lambda>w h. msg),
       GoHidGetErrno = (\<lambda>w. 13),
       wcharTToString = (\<lambda>m. (map char_of m, None)),
       Errno_Error = (\<lambda>e. ''permission denied'') \<rparr>"

definition mock_info :: DeviceInfo where
  "mock_info = \<lparr> Path = ''/dev/hidraw0'', VendorID = 0x046d, ProductID = 0xc077,
       Release = 1, UsagePage = 1, Usage = 2, Interface = 0,
       Serial = [], Product = ''Mouse'', Manufacturer = [] \<rparr>"

definition open_device :: Device where
  "open_device = \<lparr> info = mock_info, device = Some (HidDevice 1) \<rparr>"

definition closed_device :: Device where
  "closed_device = \<lparr> info = mock_info, device = None \<rparr>"


section \<open>Auxiliary facts\<close>

text \<open>A C \<open>int\<close> reads as \<open>-1\<close> exactly when all its bits are set.\<close>

lemma sint_minus1: "sint (r :: 32 word) = - 1 \<longleftrightarrow> r = - 1"
  by (metis sint_n1 signed_word_eqI)

lemma all_bits_set: "(- 1 :: 32 word) = 0xFFFFFFFF"
  by simp


lemma timeout_millis_100ms: "timeout_millis 100000000 = 100"
  by (simp add: timeout_millis_def Millisecond_def signed_divide_int_def)

text \<open>
  A positive duration of fewer than \<open>2 ^ 31\<close> whole milliseconds reaches the native
  layer as that number of milliseconds.
\<close>

lemma timeout_millis_small:
  assumes "0 <s timeout" and "sint timeout div 1000000 < 2 ^ 31"
  shows "sint (timeout_millis timeout) = sint timeout div 1000000"
proof -
  have pos: "0 < sint timeout"
    using assms(1) by (simp add: word_sless_alt)
  then have q: "sint timeout sdiv Millisecond = sint timeout div 1000000"
    by (simp add: signed_divide_int_def Millisecond_def)
  have nonneg: "0 \<le> sint timeout div 1000000"
    using pos by simp
  have "timeout_millis timeout = (word_of_int (sint timeout div 1000000) :: 32 word)"
    unfolding timeout_millis_def Let_def q
    by (simp add: unsigned_of_int word_of_int_eq_iff min_def)
  then show ?thesis
    using assms(2) nonneg
    by (simp add: sint_sbintrunc' signed_take_bit_int_eq_self)
qed

text \<open>The loop of \<open>Enumerate\<close> appends one record per native node, in list order.\<close>

lemma enumerate_loop_map: "enumerate_loop X xs infos = infos @ map (convert_info X) xs"
  by (induction xs arbitrary: infos) simp_all

section \<open>Properties\<close>

subsection \<open>Use after close\<close>

text \<open>
  Claim C1. On a device whose handle is the closed sentinel (\<open>device d = None\<close>) and a
  non-empty buffer, \<open>DoWrite\<close> and \<open>DoRead\<close> return count 0 with \<open>ErrDeviceClosed\<close>,
  for every \<open>featureReport\<close> flag and every timeout, and the event log is unchanged:
  no native call is made. \<open>DoRead\<close> leaves the buffer as it was.
\<close>

theorem closed_device_fails:
  assumes "device d = None" and "b \<noteq> []"
  shows "DoWrite X (Some d) b featureReport w = Return ((0, Some ErrDeviceClosed), w) \<and>
         DoRead X (Some d) b featureReport timeout w = Return ((0, Some ErrDeviceClosed), b, w)"
  using assms by (simp add: DoWrite_def DoRead_def)

theorem closed_device_fails_witness:
  "device closed_device = None \<and> [1, 2 :: byte] \<noteq> [] \<and>
   DoWrite (mock_extern ''linux'' 2 None []) (Some closed_device) [1, 2] False [] =
     Return ((0, Some ErrDeviceClosed), []) \<and>
   DoRead (mock_extern ''linux'' 2 None []) (Some closed_device) [1, 2] False 0 [] =
     Return ((0, Some ErrDeviceClosed), [1, 2], [])"
  using closed_device_fails [of closed_device "[1, 2]" "mock_extern ''linux'' 2 None []" False "[]" 0]
  by (simp add: closed_device_def)

subsection \<open>Report-ID framing\<close>

text \<open>
  Claim C2. On an open device and a non-empty payload \<open>b\<close>, \<open>DoWrite\<close> makes one native
  write call (\<open>hid_write\<close>, or \<open>hid_send_feature_report\<close> for a feature report), the
  first event it adds to the log. Where \<open>runtime.GOOS\<close> is \<open>windows\<close> that call
  receives \<open>0x00\<close> followed by \<open>b\<close>, with length \<open>length b + 1\<close>; on every other
  platform it receives \<open>b\<close> itself with length \<open>length b\<close>. The only events after it
  are those of the error translator.
\<close>

theorem DoWrite_framing:
  assumes "device d = Some h" and "b \<noteq> []"
  shows "\<exists>res rest.
           DoWrite X (Some d) b featureReport w =
             Return (res, w @ [(if featureReport then Call_hid_send_feature_report else Call_hid_write) h
                                 (if GOOS X = ''windows'' then 0 # b else b)
                                 (if GOOS X = ''windows'' then length b + 1 else length b)] @ rest) \<and>
           list_all (\<lambda>e. e = Call_hid_error (Some h) \<or> e = Call_GoHidGetErrno) rest"
  using assms
  by (auto simp: DoWrite_def frame_def getError_def Let_def split: option.splits prod.splits)

theorem DoWrite_framing_witness:
  "device open_device = Some (HidDevice 1) \<and> [1, 2 :: byte] \<noteq> [] \<and>
   (\<exists>res rest.
      DoWrite (mock_extern ''windows'' 3 None []) (Some open_device) [1, 2] False [] =
        Return (res, [] @ [Call_hid_write (HidDevice 1) [0, 1, 2] 3] @ rest)) \<and>
   (\<exists>res rest.
      DoWrite (mock_extern ''linux'' 2 None []) (Some open_device) [1, 2] False [] =
        Return (res, [] @ [Call_hid_write (HidDevice 1) [1, 2] 2] @ rest))"
  using DoWrite_framing [of open_device "HidDevice 1" "[1, 2]" "mock_extern ''windows'' 3 None []" False "[]"]
    DoWrite_framing [of open_device "HidDevice 1" "[1, 2]" "mock_extern ''linux'' 2 None []" False "[]"]
  by (auto simp: open_device_def mock_extern_def)

subsection \<open>The error translator\<close>




subsection \<open>A timed read that times out\<close>

text \<open>
  Claim C4. On an open device, a non-empty buffer and a timeout greater than zero, a
  read that is not a feature read and whose timed native primitive \<open>hid_read_timeout\<close>
  returns 0 gives count 0 and no error: a successful zero-byte read. The only native
  call is that timed read.
\<close>

theorem timed_read_zero_is_success:
  assumes "device d = Some h" and "b \<noteq> []" and "0 <s timeout"
    and "fst (hid_read_timeout X w h b (length b) (timeout_millis timeout)) = 0"
  shows "DoRead X (Some d) b False timeout w =
           Return ((0, None), snd (hid_read_timeout X w h b (length b) (timeout_millis timeout)),
                   w @ [Call_hid_read_timeout h b (length b) (timeout_millis timeout)])"
  using assms by (auto simp: DoRead_def Let_def split: prod.splits)

theorem timed_read_zero_is_success_witness:
  "device open_device = Some (HidDevice 1) \<and> [0, 0 :: byte] \<noteq> [] \<and> 0 <s (100000000 :: Duration) \<and>
   fst (hid_read_timeout (mock_extern ''linux'' 0 None []) [] (HidDevice 1) [0, 0] 2 100) = 0 \<and>
   DoRead (mock_extern ''linux'' 0 None []) (Some open_device) [0, 0] False 100000000 [] =
     Return ((0, None), [0, 0], [Call_hid_read_timeout (HidDevice 1) [0, 0] 2 100])"
proof -
  have pos: "0 <s (100000000 :: Duration)"
    by (simp add: word_sless_alt)
  show ?thesis
    using timed_read_zero_is_success [of open_device "HidDevice 1" "[0, 0]" 100000000
        "mock_extern ''linux'' 0 None []" "[]"] pos
    by (simp add: timeout_millis_100ms open_device_def mock_extern_def)
qed

subsection \<open>Empty buffers\<close>

text \<open>
  Claim C5. On a zero-length buffer \<open>DoWrite\<close> and \<open>DoRead\<close> return count 0 and no
  error and leave the event log unchanged, whatever the receiver is. The length check
  comes first: on a device whose handle is the closed sentinel the result is still
  count 0 with no error, not \<open>ErrDeviceClosed\<close>.
\<close>

theorem empty_buffer_returns_zero:
  "DoWrite X dev [] featureReport w = Return ((0, None), w) \<and>
   DoRead X dev [] featureReport timeout w = Return ((0, None), [], w) \<and>
   DoWrite X (Some (d\<lparr>device := None\<rparr>)) [] featureReport w = Return ((0, None), w) \<and>
   DoRead X (Some (d\<lparr>device := None\<rparr>)) [] featureReport timeout w = Return ((0, None), [], w)"
  by (simp add: DoWrite_def DoRead_def)

subsection \<open>Close\<close>

text \<open>
  Claim C6. \<open>Close\<close> never returns an error. On a device whose handle is already the
  closed sentinel it returns success, the device and the event log unchanged. On a
  device with a live handle \<open>h\<close> it adds exactly one event, the native close of \<open>h\<close>,
  sets the handle to the closed sentinel and returns success. In both cases the device
  it leaves is closed, and closing that device again changes nothing.
\<close>

theorem Close_idempotent:
  "(device d = None \<longrightarrow> Close X (Some d) w = Return (None, d, w)) \<and>
   (\<forall>h. device d = Some h \<longrightarrow>
      Close X (Some d) w = Return (None, d\<lparr>device := None\<rparr>, w @ [Call_hid_close h])) \<and>
   (\<exists>d' w'. Close X (Some d) w = Return (None, d', w') \<and> device d' = None \<and>
      Close X (Some d') w' = Return (None, d', w'))"
  by (cases "device d") (simp_all add: Close_def)

theorem Close_idempotent_witness:
  "Close (mock_extern ''linux'' 0 None []) (Some closed_device) [] = Return (None, closed_device, []) \<and>
   Close (mock_extern ''linux'' 0 None []) (Some open_device) [] =
     Return (None, closed_device, [Call_hid_close (HidDevice 1)])"
  using Close_idempotent [of closed_device "mock_extern ''linux'' 0 None []" "[]"]
    Close_idempotent [of open_device "mock_extern ''linux'' 0 None []" "[]"]
  by (simp add: open_device_def closed_device_def)

subsection \<open>The result of a write\<close>

text \<open>
  Claim C7. On an open device and a non-empty payload, let \<open>r\<close> be what the native write
  primitive (\<open>hid_send_feature_report\<close> for a feature report, \<open>hid_write\<close> otherwise)
  returns for the framed payload, and \<open>w1\<close> the log after that call. When \<open>r\<close> is the
  all-bits-set value \<open>- 1\<close>, \<open>DoWrite\<close> fails with the error that \<open>getError\<close> produces.
  For every other \<open>r\<close> it returns the native count \<open>sint r\<close> unchanged and no error.
  On Windows the count of a fully transmitted payload of \<open>n\<close> bytes is \<open>n + 1\<close>: it
  includes the prepended report-ID byte.
\<close>

theorem DoWrite_result:
  assumes "device d = Some h" and "b \<noteq> []"
    and "r = (if featureReport
              then hid_send_feature_report X w h (frame X b) (length (frame X b))
              else hid_write X w h (frame X b) (length (frame X b)))"
    and "w1 = w @ [if featureReport
                   then Call_hid_send_feature_report h (frame X b) (length (frame X b))
                   else Call_hid_write h (frame X b) (length (frame X b))]"
  shows "(r = - 1 \<longrightarrow>
            DoWrite X (Some d) b featureReport w =
              Return ((0, Some (fst (getError X (Some d) w1))), snd (getError X (Some d) w1))) \<and>
         (r \<noteq> - 1 \<longrightarrow> DoWrite X (Some d) b featureReport w = Return ((sint r, None), w1)) \<and>
         (GOOS X = ''windows'' \<and> sint r = int (length (frame X b)) \<longrightarrow>
            DoWrite X (Some d) b featureReport w = Return ((int (length b) + 1, None), w1))"
  using assms
  by (auto simp: DoWrite_def Let_def sint_minus1 frame_def split: prod.splits)

theorem DoWrite_result_witness:
  "DoWrite (mock_extern ''windows'' (- 1) None []) (Some open_device) [1, 2] False [] =
     Return ((0, Some (ErrorsNew ''hidapi: unknown failure. Errno: permission denied'')),
             [Call_hid_write (HidDevice 1) [0, 1, 2] 3, Call_hid_error (Some (HidDevice 1)),
              Call_GoHidGetErrno]) \<and>
   DoWrite (mock_extern ''windows'' 3 None []) (Some open_device) [1, 2] False [] =
     Return ((3, None), [Call_hid_write (HidDevice 1) [0, 1, 2] 3]) \<and>
   DoWrite (mock_extern ''linux'' (- 2) None []) (Some open_device) [1, 2] True [] =
     Return ((- 2, None), [Call_hid_send_feature_report (HidDevice 1) [1, 2] 2])"
  using DoWrite_result [of open_device "HidDevice 1" "[1, 2]" "- 1" False
      "mock_extern ''windows'' (- 1) None []" "[]" "[Call_hid_write (HidDevice 1) [0, 1, 2] 3]"]
    DoWrite_result [of open_device "HidDevice 1" "[1, 2]" 3 False
      "mock_extern ''windows'' 3 None []" "[]" "[Call_hid_write (HidDevice 1) [0, 1, 2] 3]"]
    DoWrite_result [of open_device "HidDevice 1" "[1, 2]" "- 2" True
      "mock_extern ''linux'' (- 2) None []" "[]" "[Call_hid_send_feature_report (HidDevice 1) [1, 2] 2]"]
  by (simp add: open_device_def mock_extern_def frame_def getError_def)

subsection \<open>The dispatch of a read\<close>

text \<open>
  Claim C8, amended. On an open device and a non-empty buffer \<open>DoRead\<close> makes one native
  read call, the first event it adds to the log: the feature-report read when
  \<open>featureReport\<close> is set, and then the result does not depend on the timeout;
  otherwise the timed read when the timeout is greater than zero; otherwise the
  blocking read. The millisecond argument of the timed read is
  \<open>C.int(timeout/time.Millisecond)\<close>, and it is the duration truncated to whole
  milliseconds whenever that number is below \<open>2 ^ 31\<close>.
\<close>

theorem DoRead_dispatch:
  assumes "device d = Some h" and "b \<noteq> []"
  shows "(\<exists>res b1 rest.
            DoRead X (Some d) b featureReport timeout w =
              Return (res, b1,
                w @ [if featureReport then Call_hid_get_feature_report h b (length b)
                     else if 0 <s timeout
                          then Call_hid_read_timeout h b (length b) (timeout_millis timeout)
                          else Call_hid_read h b (length b)] @ rest) \<and>
            list_all (\<lambda>e. e = Call_hid_error (Some h) \<or> e = Call_GoHidGetErrno) rest) \<and>
         DoRead X (Some d) b True timeout w = DoRead X (Some d) b True timeout' w \<and>
         (0 <s timeout \<and> sint timeout div 1000000 < 2 ^ 31 \<longrightarrow>
            sint (timeout_millis timeout) = sint timeout div 1000000)"
proof (intro conjI)
  show "\<exists>res b1 rest.
            DoRead X (Some d) b featureReport timeout w =
              Return (res, b1,
                w @ [if featureReport then Call_hid_get_feature_report h b (length b)
                     else if 0 <s timeout
                          then Call_hid_read_timeout h b (length b) (timeout_millis timeout)
                          else Call_hid_read h b (length b)] @ rest) \<and>
            list_all (\<lambda>e. e = Call_hid_error (Some h) \<or> e = Call_GoHidGetErrno) rest"
    using assms
    by (auto simp: DoRead_def getError_def Let_def split: option.splits prod.splits)
  show "DoRead X (Some d) b True timeout w = DoRead X (Some d) b True timeout' w"
    using assms by (simp add: DoRead_def Let_def)
  show "0 <s timeout \<and> sint timeout div 1000000 < 2 ^ 31 \<longrightarrow>
          sint (timeout_millis timeout) = sint timeout div 1000000"
    using timeout_millis_small by blast
qed

theorem DoRead_dispatch_witness:
  "(\<exists>res b1 rest.
      DoRead (mock_extern ''linux'' 2 None []) (Some open_device) [0, 0] False 100000000 [] =
        Return (res, b1, [] @ [Call_hid_read_timeout (HidDevice 1) [0, 0] 2 100] @ rest)) \<and>
   (\<exists>res b1 rest.
      DoRead (mock_extern ''linux'' 2 None []) (Some open_device) [0, 0] False 0 [] =
        Return (res, b1, [] @ [Call_hid_read (HidDevice 1) [0, 0] 2] @ rest)) \<and>
   (\<exists>res b1 rest.
      DoRead (mock_extern ''linux'' 2 None []) (Some open_device) [0, 0] True 100000000 [] =
        Return (res, b1, [] @ [Call_hid_get_feature_report (HidDevice 1) [0, 0] 2] @ rest)) \<and>
   sint (timeout_millis 100000000) = 100"
proof -
  have pos: "0 <s (100000000 :: Duration)"
    by (simp add: word_sless_alt)
  show ?thesis
    using DoRead_dispatch [of open_device "HidDevice 1" "[0, 0]" "mock_extern ''linux'' 2 None []"
        False 100000000 "[]" 0]
      DoRead_dispatch [of open_device "HidDevice 1" "[0, 0]" "mock_extern ''linux'' 2 None []"
        False 0 "[]" 0]
      DoRead_dispatch [of open_device "HidDevice 1" "[0, 0]" "mock_extern ''linux'' 2 None []"
        True 100000000 "[]" 0]
      pos
    by (auto simp: timeout_millis_100ms open_device_def)
qed

text \<open>
  The claim as the specification words it, for every timeout greater than zero, fails
  at a timeout of \<open>2 ^ 31\<close> milliseconds (2147483648000000 ns, about 24.9 days): the
  duration truncated to whole milliseconds is 2147483648, and the conversion to the
  32-bit C \<open>int\<close> hands the native timed read \<open>- 2147483648\<close>.
\<close>

theorem DoRead_dispatch_counterexample:
  "0 <s (2147483648000000 :: Duration) \<and>
   sint (2147483648000000 :: Duration) sdiv Millisecond = 2147483648 \<and>
   DoRead (mock_extern ''linux'' 0 None []) (Some open_device) [0] False 2147483648000000 [] =
     Return ((0, None), [0], [Call_hid_read_timeout (HidDevice 1) [0] 1 (- 2147483648)]) \<and>
   sint (- 2147483648 :: 32 word) = - 2147483648"
proof -
  have ms: "timeout_millis 2147483648000000 = - 2147483648"
    by (simp add: timeout_millis_def Millisecond_def signed_divide_int_def)
  have pos: "0 <s (2147483648000000 :: Duration)"
    by (simp add: word_sless_alt)
  have q: "sint (2147483648000000 :: Duration) sdiv Millisecond = 2147483648"
    by (simp add: Millisecond_def signed_divide_int_def)
  have run: "DoRead (mock_extern ''linux'' 0 None []) (Some open_device) [0] False 2147483648000000 [] =
     Return ((0, None), [0], [Call_hid_read_timeout (HidDevice 1) [0] 1 (- 2147483648)])"
    using pos by (simp add: DoRead_def ms open_device_def mock_extern_def)
  have s: "sint (- 2147483648 :: 32 word) = - 2147483648"
    by simp
  show ?thesis
    using pos q run s by blast
qed

subsection \<open>Enumeration of no device\<close>

text \<open>
  Claim C9. For every vendor and product id, when the native enumeration returns the
  null list, \<open>Enumerate\<close> returns the empty sequence of records. Its only result is
  that sequence: it has no error to report. It takes the lock, makes the native
  enumeration call and releases the lock, and frees nothing.
\<close>

theorem Enumerate_null_list:
  assumes "hid_enumerate X (w @ [EnumerateLock]) vendorID productID = []"
  shows "Enumerate X vendorID productID w =
           ([], w @ [EnumerateLock, Call_hid_enumerate vendorID productID, EnumerateUnlock])"
  using assms by (simp add: Enumerate_def)

theorem Enumerate_null_list_witness:
  "hid_enumerate (mock_extern ''linux'' 0 None []) ([] @ [EnumerateLock]) 0x046d 0 = [] \<and>
   Enumerate (mock_extern ''linux'' 0 None []) 0x046d 0 [] =
     ([], [EnumerateLock, Call_hid_enumerate 0x046d 0, EnumerateUnlock])"
  using Enumerate_null_list [of "mock_extern ''linux'' 0 None []" "[]" "0x046d" 0]
  by (simp add: mock_extern_def)

subsection \<open>The count of a failed transfer\<close>

text \<open>
  Claim C10. On an open device and a non-empty buffer, when the native write primitive
  returns \<open>- 1\<close>, \<open>DoWrite\<close> returns count 0 together with an error, and when the native
  read primitive that \<open>DoRead\<close> selects returns \<open>- 1\<close>, \<open>DoRead\<close> returns count 0
  together with an error. More generally, whenever either function returns an error the
  count beside it is 0.
\<close>

theorem failed_io_returns_zero_count:
  assumes "device d = Some h" and "b \<noteq> []"
  shows "((if featureReport
           then hid_send_feature_report X w h (frame X b) (length (frame X b))
           else hid_write X w h (frame X b) (length (frame X b))) = - 1 \<longrightarrow>
            (\<exists>e w'. DoWrite X (Some d) b featureReport w = Return ((0, Some e), w'))) \<and>
         (fst (if featureReport then hid_get_feature_report X w h b (length b)
               else if 0 <s timeout
                    then hid_read_timeout X w h b (length b) (timeout_millis timeout)
                    else hid_read X w h b (length b)) = - 1 \<longrightarrow>
            (\<exists>e b1 w'. DoRead X (Some d) b featureReport timeout w = Return ((0, Some e), b1, w'))) \<and>
         (\<forall>n e w'. DoWrite X (Some d) b featureReport w = Return ((n, Some e), w') \<longrightarrow> n = 0) \<and>
         (\<forall>n e b1 w'. DoRead X (Some d) b featureReport timeout w = Return ((n, Some e), b1, w') \<longrightarrow> n = 0)"
  using assms
  by (auto simp: DoWrite_def DoRead_def Let_def split: prod.splits if_splits)

theorem failed_io_returns_zero_count_witness:
  "(\<exists>e w'. DoWrite (mock_extern ''linux'' (- 1) None []) (Some open_device) [1, 2] False [] =
      Return ((0, Some e), w')) \<and>
   (\<exists>e b1 w'. DoRead (mock_extern ''linux'' (- 1) None []) (Some open_device) [0, 0] False 0 [] =
      Return ((0, Some e), b1, w'))"
  using failed_io_returns_zero_count [of open_device "HidDevice 1" "[1, 2]" False
      "mock_extern ''linux'' (- 1) None []" "[]" 0]
    failed_io_returns_zero_count [of open_device "HidDevice 1" "[0, 0]" False
      "mock_extern ''linux'' (- 1) None []" "[]" 0]
  by (simp add: open_device_def mock_extern_def)

end
